theory Spec2Isabelle
  imports Complex_Main "HOL-Library.AList" "HOL-Library.Multiset"
begin

section \<open>JavaScript strings\<close>

text \<open>
  A JavaScript string is a sequence of UTF-16 code units. The model uses Isabelle strings
  and reads each character as the code unit of the same number, so it covers the texts whose
  code units lie in 0..255. \<open>isWhiteSpace\<close> is the set that both \<^verbatim>\<open>\s\<close> and
  \<^verbatim>\<open>String.prototype.trim\<close> use (white space and line terminators), cut down to that range.
\<close>

definition isWhiteSpace :: "char \<Rightarrow> bool" where
  "isWhiteSpace c \<longleftrightarrow>
     c \<in> set [CHR 0x09, CHR 0x0A, CHR 0x0B, CHR 0x0C, CHR 0x0D, CHR 0x20, CHR 0xA0]"

definition trim :: "string \<Rightarrow> string" where
  "trim s = rev (dropWhile isWhiteSpace (rev (dropWhile isWhiteSpace s)))"

text \<open>
  \<open>toUpperChar\<close> is the canonical form under which the \<^verbatim>\<open>i\<close> flag compares characters, on
  this range: the letters a to z and the accented small letters go to their capitals, and
  the two letters whose capital lies outside the range stay as they are, as does every
  other character. \<open>toLowerChar\<close> is \<^verbatim>\<open>toLowerCase\<close> on one character of the range.
\<close>

definition toUpperChar :: "char \<Rightarrow> char" where
  "toUpperChar c =
     (let n = (of_char c :: nat)
      in if (97 \<le> n \<and> n \<le> 122) \<or> (224 \<le> n \<and> n \<le> 254 \<and> n \<noteq> 247)
         then char_of (n - 32) else c)"

definition toLowerChar :: "char \<Rightarrow> char" where
  "toLowerChar c =
     (let n = (of_char c :: nat)
      in if (65 \<le> n \<and> n \<le> 90) \<or> (192 \<le> n \<and> n \<le> 222 \<and> n \<noteq> 215)
         then char_of (n + 32) else c)"

definition toLowerCase :: "string \<Rightarrow> string" where
  "toLowerCase s = map toLowerChar s"

text \<open>\<^verbatim>\<open>s.includes(t)\<close>: \<open>t\<close> occurs in \<open>s\<close> as a contiguous substring.\<close>

fun includesJS :: "string \<Rightarrow> string \<Rightarrow> bool" where
  "includesJS [] t = (t = [])"
| "includesJS (c # s) t = (take (length t) (c # s) = t \<or> includesJS s t)"

text \<open>\<^verbatim>\<open>s.split(d)\<close> for a one-character separator: never the empty list.\<close>

fun split :: "char \<Rightarrow> string \<Rightarrow> string list" where
  "split d [] = [[]]"
| "split d (c # s) =
     (if c = d then [] # split d s
      else (case split d s of [] \<Rightarrow> [[c]] | l # ls \<Rightarrow> (c # l) # ls))"

text \<open>\<^verbatim>\<open>xs.join(sep)\<close>.\<close>

fun join :: "string \<Rightarrow> string list \<Rightarrow> string" where
  "join sep [] = []"
| "join sep [x] = x"
| "join sep (x # y # ys) = x @ sep @ join sep (y # ys)"

text \<open>Truthiness of a value that is \<^verbatim>\<open>null\<close>/\<^verbatim>\<open>undefined\<close> or a string.\<close>

fun truthy :: "string option \<Rightarrow> bool" where
  "truthy None = False"
| "truthy (Some s) = (s \<noteq> [])"

text \<open>\<^verbatim>\<open>a || b\<close> where \<open>a\<close> is \<^verbatim>\<open>undefined\<close> or a string and \<open>b\<close> a string.\<close>

definition orElse :: "string option \<Rightarrow> string \<Rightarrow> string" where
  "orElse a b = (if truthy a then the a else b)"

section \<open>The regular expressions of extractFixedCode\<close>

text \<open>
  A backtracking matcher for the fragment of ECMAScript regular expressions that
  \<^verbatim>\<open>extractFixedCode\<close> uses: single characters (exact, or compared after canonicalisation
  under the \<^verbatim>\<open>i\<close> flag), the classes \<^verbatim>\<open>\s\<close> and \<^verbatim>\<open>[\s\S]\<close>, the greedy star \<^verbatim>\<open>x*\<close>, the lazy
  star \<^verbatim>\<open>x*?\<close> and one capture group. A pattern is the list of its atoms, and \<open>run\<close>
  tries the alternatives in the order ECMAScript prescribes: a greedy star takes a
  character first and gives it back on failure, a lazy star tries the continuation first.
\<close>

datatype cls = Exact char | NoCase char | Space | AnyChar

fun accepts :: "cls \<Rightarrow> char \<Rightarrow> bool" where
  "accepts (Exact p) c = (c = p)"
| "accepts (NoCase p) c = (toUpperChar c = toUpperChar p)"
| "accepts Space c = isWhiteSpace c"
| "accepts AnyChar c = True"

datatype atom = One cls | Greedy cls | Lazy cls | GroupOpen | GroupClose

text \<open>
  \<open>run r s m\<close> matches the pattern \<open>r\<close> at the start of \<open>s\<close>. \<open>m\<close> is the input that was left
  when the group opened, and after the group closed it is the captured text; the result is
  the capture of the first successful alternative, \<open>None\<close> when every alternative fails.
\<close>

fun run :: "atom list \<Rightarrow> string \<Rightarrow> string \<Rightarrow> string option" where
  "run [] s m = Some m"
| "run (GroupOpen # r) s m = run r s s"
| "run (GroupClose # r) s m = run r s (take (length m - length s) m)"
| "run (One k # r) [] m = None"
| "run (One k # r) (c # s) m = (if accepts k c then run r s m else None)"
| "run (Greedy k # r) [] m = run r [] m"
| "run (Greedy k # r) (c # s) m =
     (if accepts k c
      then (case run (Greedy k # r) s m of Some v \<Rightarrow> Some v | None \<Rightarrow> run r (c # s) m)
      else run r (c # s) m)"
| "run (Lazy k # r) [] m = run r [] m"
| "run (Lazy k # r) (c # s) m =
     (case run r (c # s) m of
        Some v \<Rightarrow> Some v
      | None \<Rightarrow> if accepts k c then run (Lazy k # r) s m else None)"

text \<open>
  \<^verbatim>\<open>s.match(re)\<close> without the \<^verbatim>\<open>g\<close> flag: the leftmost position where the pattern matches;
  the value is capture group 1 of that match (\<^verbatim>\<open>match[1]\<close>), \<open>None\<close> for \<^verbatim>\<open>null\<close>.
\<close>

fun match :: "atom list \<Rightarrow> string \<Rightarrow> string option" where
  "match r [] = run r [] []"
| "match r (c # s) = (case run r (c # s) [] of Some v \<Rightarrow> Some v | None \<Rightarrow> match r s)"

definition fixedCodeLabel :: string where
  "fixedCodeLabel = ''FIXED_CODE:''"

definition fence :: string where
  "fence = ''```''"

definition pythonFence :: string where
  "pythonFence = ''```python''"

text \<open>\<^verbatim>\<open>/FIXED_CODE:\s*```python\s*([\s\S]*?)\s*```/i\<close>\<close>

definition fixedCodeRegex :: "atom list" where
  "fixedCodeRegex =
     map (One \<circ> NoCase) fixedCodeLabel @ [Greedy Space] @ map (One \<circ> NoCase) pythonFence
     @ [Greedy Space, GroupOpen, Lazy AnyChar, GroupClose, Greedy Space]
     @ map (One \<circ> NoCase) fence"

text \<open>\<^verbatim>\<open>/```python\s*([\s\S]*?)\s*```/\<close>\<close>

definition codeBlockRegex :: "atom list" where
  "codeBlockRegex =
     map (One \<circ> Exact) pythonFence
     @ [Greedy Space, GroupOpen, Lazy AnyChar, GroupClose, Greedy Space]
     @ map (One \<circ> Exact) fence"

section \<open>Evaluator.extractFixedCode\<close>

definition newline :: string where
  "newline = [CHR 0x0A]"

definition statementOpeners :: "string list" where
  "statementOpeners = [''def'', ''class'', ''import'', ''from'', ''if'', ''for'', ''while'', ''try'', ''with'']"

definition startsWith :: "string \<Rightarrow> string \<Rightarrow> bool" where
  "startsWith s k \<longleftrightarrow> take (length k) s = k"

text \<open>
  \<^verbatim>\<open>t.match(/^(def|class|import|from|if|for|while|try|with|\s+)/)\<close>: one of the keywords
  is a prefix of \<open>t\<close>, or \<open>t\<close> starts with white space.
\<close>

definition opensStatement :: "string \<Rightarrow> bool" where
  "opensStatement t \<longleftrightarrow>
     list_ex (startsWith t) statementOpeners \<or> (case t of [] \<Rightarrow> False | c # _ \<Rightarrow> isWhiteSpace c)"

text \<open>The loop over the lines, with the flag \<^verbatim>\<open>inCodeBlock\<close>; the result is \<^verbatim>\<open>codeLines\<close>.\<close>

fun scanLines :: "bool \<Rightarrow> string list \<Rightarrow> string list" where
  "scanLines inCodeBlock [] = []"
| "scanLines inCodeBlock (line # lines) =
     (let inCodeBlock' = (inCodeBlock \<or> opensStatement (trim line))
      in if inCodeBlock' then line # scanLines inCodeBlock' lines
         else scanLines inCodeBlock' lines)"

definition lineScan :: "string \<Rightarrow> string option" where
  "lineScan analysis =
     (let codeLines = scanLines False (split (CHR 0x0A) analysis)
      in if length codeLines > 0 then Some (trim (join newline codeLines)) else None)"

definition extractFixedCode :: "string \<Rightarrow> string option" where
  "extractFixedCode analysis =
     (case match fixedCodeRegex analysis of
        Some g \<Rightarrow> Some (trim g)
      | None \<Rightarrow>
          (case match codeBlockRegex analysis of
             Some g \<Rightarrow> Some (trim g)
           | None \<Rightarrow> lineScan analysis))"


section \<open>Data model of the evaluator\<close>

text \<open>
  The fields of a problem that the pipeline reads. An absent \<^verbatim>\<open>test_cases\<close> is the empty
  list: the only guard on it is \<^verbatim>\<open>problem.test_cases && problem.test_cases.length > 0\<close>.
  The wall-clock fields (\<^verbatim>\<open>timestamp\<close>, \<^verbatim>\<open>execution_time\<close>) and the console output of the
  evaluator are left out.
\<close>

record problem =
  ident :: string
  problem_statement :: string
  base_code :: string
  filename :: "string option"
  test_cases :: "string list"

record test_result =
  test_id :: nat
  test_case :: string
  passed :: bool
  test_output :: "string option"
  test_error :: "string option"

record evaluation_result =
  problem_id :: string
  success :: bool
  error :: "string option"
  analysis :: "string option"
  generated_fix :: "string option"
  patch :: "string option"
  test_results :: "test_result list"

text \<open>
  An agent as the evaluator sees it: any object with these methods. A rejected promise is
  \<open>Inl\<close> of the error's message, a resolved one \<open>Inr\<close> of the text.
\<close>

record agent =
  generate :: "string \<Rightarrow> (string \<times> nat) list \<Rightarrow> string + string"
  analyzeCode :: "string \<Rightarrow> string \<Rightarrow> string + string"
  generatePatch :: "string \<Rightarrow> string \<Rightarrow> string \<Rightarrow> string + string"

text \<open>
  What \<^verbatim>\<open>execAsync\<close> gives for a command that runs a file: it resolves with the captured
  stdout and stderr when the child exits with code 0 and rejects with an error otherwise.
  The two commands of the evaluator are functions of the content of the file they run.
\<close>

datatype proc_result = Exited string string | Rejected string

record sys =
  py_compile :: "string \<Rightarrow> proc_result"
  python3 :: "string \<Rightarrow> proc_result"

text \<open>
  The file system and the reading of \<^verbatim>\<open>Date.now()\<close>. \<^verbatim>\<open>fs.writeFile\<close> and \<^verbatim>\<open>fs.unlink\<close> are taken
  to succeed. The clock is read from the world; the functions below do not advance it.
\<close>

record world =
  files :: "string \<rightharpoonup> string"
  now :: nat

definition writeFile :: "string \<Rightarrow> string \<Rightarrow> world \<Rightarrow> world" where
  "writeFile path content w = w\<lparr>files := (files w)(path \<mapsto> content)\<rparr>"

definition unlink :: "string \<Rightarrow> world \<Rightarrow> world" where
  "unlink path w = w\<lparr>files := (files w)(path := None)\<rparr>"

definition digit :: "nat \<Rightarrow> char" where
  "digit d = char_of (48 + d)"

fun decimal :: "nat \<Rightarrow> string" where
  "decimal n = (if n < 10 then [digit n] else decimal (n div 10) @ [digit (n mod 10)])"

declare decimal.simps [simp del]

section \<open>Evaluator.validateSyntax\<close>

definition validateTempFile :: "nat \<Rightarrow> string" where
  "validateTempFile t = ''/tmp/validate_'' @ decimal t @ ''.py''"

text \<open>
  The \<^verbatim>\<open>try\<close> block writes the file, runs the checker and unlinks the file; the \<^verbatim>\<open>catch\<close>
  block only returns \<^verbatim>\<open>false\<close>.
\<close>

definition validateSyntax :: "sys \<Rightarrow> string \<Rightarrow> world \<Rightarrow> bool \<times> world" where
  "validateSyntax S code w =
     (let tempFile = validateTempFile (now w);
          w1 = writeFile tempFile code w
      in case py_compile S code of
           Exited out err \<Rightarrow> (True, unlink tempFile w1)
         | Rejected msg \<Rightarrow> (False, w1))"

section \<open>Evaluator.runTestCases\<close>

definition testCode :: "string \<Rightarrow> string \<Rightarrow> string" where
  \<open>testCode fixedCode testCase =
     newline @ fixedCode @ newline @ newline @ ''# Test case'' @ newline @ testCase @ newline
     @ ''print("TEST_PASSED")'' @ newline\<close>

definition testTempFile :: "nat \<Rightarrow> nat \<Rightarrow> string" where
  "testTempFile t i = ''/tmp/test_'' @ decimal t @ ''_'' @ decimal i @ ''.py''"

text \<open>One iteration of the loop, for the test case at index \<open>i\<close>.\<close>

definition runTestCase :: "sys \<Rightarrow> string \<Rightarrow> nat \<Rightarrow> string \<Rightarrow> world \<Rightarrow> test_result \<times> world" where
  "runTestCase S fixedCode i testCase w =
     (let testResult = \<lparr>test_id = i, test_case = testCase, passed = False,
                         test_output = None, test_error = None\<rparr>;
          tempFile = testTempFile (now w) i;
          w1 = writeFile tempFile (testCode fixedCode testCase) w
      in case python3 S (testCode fixedCode testCase) of
           Exited stdout stderr \<Rightarrow>
             (testResult\<lparr>test_output := Some stdout,
                         passed := (includesJS stdout ''TEST_PASSED'' \<and> stderr = []),
                         test_error := (if stderr \<noteq> [] then Some stderr else None)\<rparr>,
              unlink tempFile w1)
         | Rejected msg \<Rightarrow>
             (testResult\<lparr>test_error := Some msg, passed := False\<rparr>, w1))"

text \<open>The loop \<^verbatim>\<open>for (let i = 0; i < testCases.length; i++)\<close>, from index \<open>i\<close> on.\<close>

fun runTestCasesFrom :: "sys \<Rightarrow> string \<Rightarrow> nat \<Rightarrow> string list \<Rightarrow> world \<Rightarrow> test_result list \<times> world" where
  "runTestCasesFrom S fixedCode i [] w = ([], w)"
| "runTestCasesFrom S fixedCode i (testCase # rest) w =
     (let (testResult, w1) = runTestCase S fixedCode i testCase w;
          (results, w2) = runTestCasesFrom S fixedCode (Suc i) rest w1
      in (testResult # results, w2))"

definition runTestCases :: "sys \<Rightarrow> string list \<Rightarrow> string \<Rightarrow> world \<Rightarrow> test_result list \<times> world" where
  "runTestCases S testCases fixedCode w = runTestCasesFrom S fixedCode 0 testCases w"

section \<open>Evaluator.determineSucess\<close>

definition determineSucess :: "evaluation_result \<Rightarrow> problem \<Rightarrow> bool" where
  "determineSucess result p =
     (if truthy (error result) then False
      else if \<not> truthy (generated_fix result)
              \<or> length (trim (case generated_fix result of None \<Rightarrow> [] | Some f \<Rightarrow> f)) = 0
           then False
      else if length (test_results result) > 0
           then length (filter passed (test_results result)) > 0
      else True)"

section \<open>Evaluator.evaluateProblem and Evaluator.evaluateBatch\<close>

text \<open>The \<^verbatim>\<open>catch\<close> block of \<^verbatim>\<open>evaluateProblem\<close>.\<close>

definition caught :: "string \<Rightarrow> evaluation_result \<Rightarrow> evaluation_result" where
  "caught msg result = result\<lparr>error := Some msg, success := False\<rparr>"

text \<open>
  The body of \<^verbatim>\<open>evaluateProblem\<close> up to the end of \<^verbatim>\<open>try\<close>/\<^verbatim>\<open>catch\<close>: the result object is
  filled in stage by stage, and a stage that throws leaves the fields written so far.
\<close>

definition pipeline :: "agent \<Rightarrow> sys \<Rightarrow> problem \<Rightarrow> world \<Rightarrow> evaluation_result \<times> world" where
  "pipeline a S p w =
     (let result = \<lparr>problem_id = ident p, success = False, error = None, analysis = None,
                     generated_fix = None, patch = None, test_results = []\<rparr>
      in case analyzeCode a (base_code p) (problem_statement p) of
           Inl msg \<Rightarrow> (caught msg result, w)
         | Inr an \<Rightarrow>
            (let result = result\<lparr>analysis := Some an\<rparr>;
                 fixedCode = extractFixedCode an
             in if \<not> truthy fixedCode
                then (caught ''Could not extract fixed code from analysis'' result, w)
                else
                 (let code = (case fixedCode of None \<Rightarrow> [] | Some f \<Rightarrow> f);
                      result = result\<lparr>generated_fix := Some code\<rparr>
                  in case generatePatch a (base_code p) code
                            (orElse (filename p) ''main.py'') of
                       Inl msg \<Rightarrow> (caught msg result, w)
                     | Inr pt \<Rightarrow>
                        (let result = result\<lparr>patch := Some pt\<rparr>;
                             (syntaxValid, w1) = validateSyntax S code w
                         in if \<not> syntaxValid
                            then (caught ''Generated code has syntax errors'' result, w1)
                            else
                             (let (result, w2) =
                                    (if length (test_cases p) > 0
                                     then (let (trs, w') = runTestCases S (test_cases p) code w1
                                           in (result\<lparr>test_results := trs\<rparr>, w'))
                                     else (result, w1))
                              in (result\<lparr>success := determineSucess result p\<rparr>, w2))))))"

text \<open>The evaluator object: the injected agent and the list \<^verbatim>\<open>this.results\<close>.\<close>

record evaluator =
  the_agent :: agent
  results :: "evaluation_result list"

definition evaluateProblem ::
  "sys \<Rightarrow> problem \<Rightarrow> evaluator \<times> world \<Rightarrow> evaluation_result \<times> evaluator \<times> world" where
  "evaluateProblem S p = (\<lambda>(ev, w).
     (let (result, w') = pipeline (the_agent ev) S p w
      in (result, ev\<lparr>results := results ev @ [result]\<rparr>, w')))"

fun evaluateBatch ::
  "sys \<Rightarrow> problem list \<Rightarrow> evaluator \<times> world \<Rightarrow> evaluation_result list \<times> evaluator \<times> world" where
  "evaluateBatch S [] st = ([], st)"
| "evaluateBatch S (p # ps) st =
     (let (result, st1) = evaluateProblem S p st;
          (rest, st2) = evaluateBatch S ps st1
      in (result # rest, st2))"

section \<open>The agents: constructors and testConnection\<close>

text \<open>
  The options object handed to the factory and on to the constructors, \<^verbatim>\<open>process.env\<close>, and
  the four agent classes with the fields their constructors set.
\<close>

record options =
  model :: "string option"
  apiKey :: "string option"
  host :: "string option"
  port :: "nat option"
  timeout :: "nat option"

type_synonym env = "string \<rightharpoonup> string"

datatype agent_object =
    OllamaAgent string nat string nat
  | OpenAIAgent string string nat
  | GeminiAgent string string nat
  | ClaudeAgent string string nat

fun agent_model :: "agent_object \<Rightarrow> string" where
  "agent_model (OllamaAgent h p m t) = m"
| "agent_model (OpenAIAgent k m t) = m"
| "agent_model (GeminiAgent k m t) = m"
| "agent_model (ClaudeAgent k m t) = m"

text \<open>\<^verbatim>\<open>a || b\<close> for an optional number: 0 is falsy.\<close>

definition numOr :: "nat option \<Rightarrow> nat \<Rightarrow> nat" where
  "numOr a b = (case a of None \<Rightarrow> b | Some n \<Rightarrow> if n = 0 then b else n)"

text \<open>\<^verbatim>\<open>a || b\<close> where both may be \<^verbatim>\<open>undefined\<close>.\<close>

definition orMaybe :: "string option \<Rightarrow> string option \<Rightarrow> string option" where
  "orMaybe a b = (if truthy a then a else b)"

definition newOllamaAgent :: "options \<Rightarrow> string + agent_object" where
  "newOllamaAgent opts =
     Inr (OllamaAgent (orElse (host opts) ''localhost'') (numOr (port opts) 11434)
            (orElse (model opts) ''qwen:2.5-8b'') (numOr (timeout opts) 60000))"

definition newOpenAIAgent :: "env \<Rightarrow> options \<Rightarrow> string + agent_object" where
  "newOpenAIAgent env opts =
     (let key = orMaybe (apiKey opts) (env ''OPENAI_API_KEY'')
      in if \<not> truthy key
         then Inl ''OpenAI API key required. Set OPENAI_API_KEY environment variable or pass apiKey option.''
         else Inr (OpenAIAgent (the key) (orElse (model opts) ''gpt-4'') (numOr (timeout opts) 60000)))"

definition newGeminiAgent :: "env \<Rightarrow> options \<Rightarrow> string + agent_object" where
  "newGeminiAgent env opts =
     (let key = orMaybe (apiKey opts) (env ''GEMINI_API_KEY'')
      in if \<not> truthy key
         then Inl ''Gemini API key required. Set GEMINI_API_KEY environment variable or pass apiKey option.''
         else Inr (GeminiAgent (the key) (orElse (model opts) ''gemini-pro'') (numOr (timeout opts) 60000)))"

definition newClaudeAgent :: "env \<Rightarrow> options \<Rightarrow> string + agent_object" where
  "newClaudeAgent env opts =
     (let key = orMaybe (apiKey opts) (env ''ANTHROPIC_API_KEY'')
      in if \<not> truthy key
         then Inl ''Anthropic API key required. Set ANTHROPIC_API_KEY environment variable or pass apiKey option.''
         else Inr (ClaudeAgent (the key) (orElse (model opts) ''claude-3-sonnet-20240229'')
                     (numOr (timeout opts) 60000)))"

text \<open>
  \<^verbatim>\<open>testConnection\<close> is the same method in the four classes up to the options of the probe
  and the label of the log line. The console is the list of the lines written with
  \<^verbatim>\<open>console.error\<close>; \<open>Inl\<close> in the result type stands for an exception that leaves the method.
\<close>

fun probeOptions :: "agent_object \<Rightarrow> (string \<times> nat) list" where
  "probeOptions (OllamaAgent h p m t) = [(''temperature'', 0)]"
| "probeOptions (OpenAIAgent k m t) = [(''temperature'', 0), (''max_tokens'', 10)]"
| "probeOptions (GeminiAgent k m t) = [(''temperature'', 0)]"
| "probeOptions (ClaudeAgent k m t) = [(''temperature'', 0), (''max_tokens'', 10)]"

fun failureLabel :: "agent_object \<Rightarrow> string" where
  "failureLabel (OllamaAgent h p m t) = ''Ollama connection test failed:''"
| "failureLabel (OpenAIAgent k m t) = ''OpenAI connection test failed:''"
| "failureLabel (GeminiAgent k m t) = ''Gemini connection test failed:''"
| "failureLabel (ClaudeAgent k m t) = ''Claude connection test failed:''"

text \<open>The \<^verbatim>\<open>try\<close> block: the probe, then \<^verbatim>\<open>response.length > 0\<close>.\<close>

definition probe :: "agent_object \<Rightarrow> agent \<Rightarrow> string + bool" where
  "probe obj a =
     (case generate a ''Hello'' (probeOptions obj) of
        Inl msg \<Rightarrow> Inl msg
      | Inr response \<Rightarrow> Inr (length response > 0))"

definition testConnection ::
  "agent_object \<Rightarrow> agent \<Rightarrow> string list \<Rightarrow> (string + bool) \<times> string list" where
  "testConnection obj a console =
     (case probe obj a of
        Inr ok \<Rightarrow> (Inr ok, console)
      | Inl msg \<Rightarrow> (Inr False, console @ [failureLabel obj @ '' '' @ msg]))"

section \<open>AgentFactory\<close>

definition createAgent :: "env \<Rightarrow> string \<Rightarrow> options \<Rightarrow> string + agent_object" where
  "createAgent env provider opts =
     (let normalizedProvider = toLowerCase provider
      in if normalizedProvider = ''ollama'' then newOllamaAgent opts
         else if normalizedProvider = ''openai'' then newOpenAIAgent env opts
         else if normalizedProvider = ''gemini'' then newGeminiAgent env opts
         else if normalizedProvider = ''claude'' then newClaudeAgent env opts
         else Inl (''Unsupported provider: '' @ provider
                   @ ''. Supported providers: ollama, openai, gemini, claude''))"

text \<open>
  The object literals of the factory, as association lists; \<^verbatim>\<open>obj[key]\<close> is \<open>map_of\<close>, the
  lookup among the properties the literal lists. The keys that every object inherits
  (\<^verbatim>\<open>constructor\<close>, \<^verbatim>\<open>__proto__\<close>) are not modelled.
\<close>

definition getDefaultModels :: "(string \<times> string) list" where
  "getDefaultModels =
     [(''ollama'', ''qwen:2.5-8b''), (''openai'', ''gpt-4''), (''gemini'', ''gemini-pro''),
      (''claude'', ''claude-3-sonnet-20240229'')]"

definition getAvailableModels :: "(string \<times> string list) list" where
  "getAvailableModels =
     [(''ollama'', [''qwen:2.5-8b'', ''qwen:2.5-14b'', ''codellama:13b'', ''codellama:34b'',
                    ''deepseek-coder:6.7b'', ''deepseek-coder:33b'', ''llama3:8b'', ''llama3:70b'']),
      (''openai'', [''gpt-4'', ''gpt-4-turbo'', ''gpt-3.5-turbo'', ''gpt-4o'', ''gpt-4o-mini'']),
      (''gemini'', [''gemini-pro'', ''gemini-1.5-pro'', ''gemini-1.5-flash'']),
      (''claude'', [''claude-3-sonnet-20240229'', ''claude-3-opus-20240229'',
                    ''claude-3-haiku-20240307'', ''claude-3-5-sonnet-20241022''])]"

definition getRequiredEnvVars :: "(string \<times> string list) list" where
  "getRequiredEnvVars =
     [(''ollama'', []), (''openai'', [''OPENAI_API_KEY'']), (''gemini'', [''GEMINI_API_KEY'']),
      (''claude'', [''ANTHROPIC_API_KEY''])]"

definition isValidProviderModel :: "string \<Rightarrow> string option \<Rightarrow> bool" where
  "isValidProviderModel provider m =
     (case map_of getAvailableModels (toLowerCase provider) of
        None \<Rightarrow> False
      | Some models \<Rightarrow> (case m of None \<Rightarrow> False | Some name \<Rightarrow> name \<in> set models))"

record env_check =
  valid :: bool
  missing :: "string list"
  check_error :: "string option"

definition validateEnvironment :: "env \<Rightarrow> string \<Rightarrow> env_check" where
  "validateEnvironment env provider =
     (case map_of getRequiredEnvVars (toLowerCase provider) of
        None \<Rightarrow> \<lparr>valid = False, missing = [], check_error = Some (''Unknown provider: '' @ provider)\<rparr>
      | Some requiredVars \<Rightarrow>
          (let missing = filter (\<lambda>varName. \<not> truthy (env varName)) requiredVars
           in \<lparr>valid = (length missing = 0), missing = missing,
               check_error = (if length missing > 0
                              then Some (''Missing environment variables: '' @ join '', '' missing)
                              else None)\<rparr>))"

text \<open>A value that is \<^verbatim>\<open>undefined\<close>, \<^verbatim>\<open>null\<close> or a string, inside a template literal or as the
  message of \<^verbatim>\<open>new Error(v)\<close>; the factory's \<^verbatim>\<open>null\<close> and \<^verbatim>\<open>undefined\<close> arise apart.\<close>

definition shown :: "string \<Rightarrow> string option \<Rightarrow> string" where
  "shown absent v = (case v of None \<Rightarrow> absent | Some s \<Rightarrow> s)"

text \<open>
  \<^verbatim>\<open>createValidatedAgent\<close> writes \<^verbatim>\<open>options.model\<close> on the object it was given, so the model
  returns the options object as the call leaves it, next to the agent or the thrown message.
\<close>

definition createValidatedAgent ::
  "env \<Rightarrow> string \<Rightarrow> options \<Rightarrow> (string + agent_object) \<times> options" where
  "createValidatedAgent env provider opts =
     (let envCheck = validateEnvironment env provider
      in if \<not> valid envCheck then (Inl (shown ''null'' (check_error envCheck)), opts)
         else
          (let opts = (if \<not> truthy (model opts)
                       then opts\<lparr>model := map_of getDefaultModels (toLowerCase provider)\<rparr>
                       else opts)
           in if \<not> isValidProviderModel provider (model opts)
              then (case map_of getAvailableModels (toLowerCase provider) of
                      None \<Rightarrow> (Inl ''Cannot read properties of undefined (reading 'join')'', opts)
                    | Some availableModels \<Rightarrow>
                        (Inl (''Invalid model '' @ shown ''undefined'' (model opts)
                              @ '' for provider '' @ provider @ ''. Available models: ''
                              @ join '', '' availableModels), opts))
              else (createAgent env provider opts, opts)))"

section \<open>Numbers and their texts\<close>














section \<open>Evaluator.generateReport\<close>




section \<open>The comparison of providers\<close>
















section \<open>Sample inputs\<close>

definition sampleSys :: sys where
  "sampleSys =
     \<lparr>py_compile = (\<lambda>c. Exited [] []),
      python3 = (\<lambda>c. if includesJS c ''== 1'' then Exited ''TEST_PASSED'' []
                      else Rejected ''Command failed'')\<rparr>"

definition sampleAgent :: agent where
  "sampleAgent =
     \<lparr>generate = (\<lambda>prompt opts. Inl ''Request failed: connect ECONNREFUSED''),
      analyzeCode = (\<lambda>code statement.
         if code = [] then Inl ''Request timeout after 60000ms''
         else Inr (''FIXED_CODE:'' @ newline @ pythonFence @ newline @ ''f = 1'' @ newline @ fence)),
      generatePatch = (\<lambda>original fixed name. Inr (''--- a/'' @ name))\<rparr>"

definition sampleProblem :: problem where
  "sampleProblem =
     \<lparr>ident = ''p1'', problem_statement = ''f must be 1'', base_code = ''f = 0'',
      filename = None, test_cases = [''assert f == 2'', ''assert f == 1'']\<rparr>"

definition brokenProblem :: problem where
  "brokenProblem =
     \<lparr>ident = ''p2'', problem_statement = ''no code'', base_code = [],
      filename = None, test_cases = []\<rparr>"


definition world0 :: world where
  "world0 = \<lparr>files = Map.empty, now = 0\<rparr>"

definition noOptions :: options where
  "noOptions = \<lparr>model = None, apiKey = None, host = None, port = None, timeout = None\<rparr>"

section \<open>Properties of the test runner\<close>

lemma runTestCasesFrom_length:
  "length (fst (runTestCasesFrom S f i ts w)) = length ts"
  by (induction ts arbitrary: i w) (simp_all add: split_def Let_def)




lemma runTestCase_fields:
  "passed (fst (runTestCase S f i t w)) \<longleftrightarrow>
     (\<exists>out. test_output (fst (runTestCase S f i t w)) = Some out \<and> includesJS out ''TEST_PASSED'')
     \<and> test_error (fst (runTestCase S f i t w)) = None"
  by (simp add: runTestCase_def Let_def split: proc_result.splits)





section \<open>Properties of trim\<close>

lemma trim_parts:
  "\<exists>ws0 ws2. body = ws0 @ trim body @ ws2 \<and> list_all isWhiteSpace ws0 \<and> list_all isWhiteSpace ws2
     \<and> (trim body = [] \<and> ws2 = []
          \<or> (trim body \<noteq> [] \<and> \<not> isWhiteSpace (hd (trim body)) \<and> \<not> isWhiteSpace (last (trim body))))"
proof -
  define b1 where "b1 = dropWhile isWhiteSpace body"
  define ws0 where "ws0 = takeWhile isWhiteSpace body"
  define ws2 where "ws2 = rev (takeWhile isWhiteSpace (rev b1))"
  have t: "trim body = rev (dropWhile isWhiteSpace (rev b1))"
    by (simp add: trim_def b1_def)
  have "b1 = rev (dropWhile isWhiteSpace (rev b1)) @ rev (takeWhile isWhiteSpace (rev b1))"
    by (metis rev_append rev_rev_ident takeWhile_dropWhile_id)
  then have b1: "b1 = trim body @ ws2"
    by (simp only: t ws2_def)
  have "body = ws0 @ b1"
    by (simp add: ws0_def b1_def)
  then have body: "body = ws0 @ trim body @ ws2"
    by (subst b1 [symmetric])
  have w0: "list_all isWhiteSpace ws0"
    by (simp add: ws0_def list_all_iff) (meson set_takeWhileD)
  have w2: "list_all isWhiteSpace ws2"
    by (simp add: ws2_def list_all_iff) (meson set_takeWhileD)
  have ends: "\<not> isWhiteSpace (hd (trim body)) \<and> \<not> isWhiteSpace (last (trim body))"
    if ne: "trim body \<noteq> []"
  proof -
    from ne have d: "dropWhile isWhiteSpace (rev b1) \<noteq> []" by (simp add: t)
    from hd_dropWhile [OF d] have l: "\<not> isWhiteSpace (last (trim body))"
      by (simp add: t last_rev)
    from ne b1 have "b1 \<noteq> []" by simp
    then have "\<not> isWhiteSpace (hd b1)"
      unfolding b1_def by (rule hd_dropWhile)
    moreover from ne b1 have "hd b1 = hd (trim body)" by simp
    ultimately show ?thesis using l by simp
  qed
  have empty: "ws2 = []" if e: "trim body = []"
  proof (rule ccontr)
    assume "ws2 \<noteq> []"
    with b1 e have ne: "b1 \<noteq> []" and "hd b1 = hd ws2" by simp_all
    moreover from w2 \<open>ws2 \<noteq> []\<close> have "isWhiteSpace (hd ws2)" by (cases ws2) simp_all
    moreover from ne have "\<not> isWhiteSpace (hd b1)"
      unfolding b1_def by (rule hd_dropWhile)
    ultimately show False by simp
  qed
  from body w0 w2 ends empty show ?thesis by blast
qed

lemma trim_trim: "trim (trim s) = trim s"
proof (cases "trim s = []")
  case True
  show ?thesis by (simp only: True) (simp add: trim_def)
next
  case False
  with trim_parts [of s] have e: "\<not> isWhiteSpace (hd (trim s))" "\<not> isWhiteSpace (last (trim s))"
    by auto
  from e(1) have 1: "dropWhile isWhiteSpace (trim s) = trim s"
    by (simp add: dropWhile_eq_self_iff)
  from e(2) have 2: "dropWhile isWhiteSpace (rev (trim s)) = rev (trim s)"
    by (simp add: dropWhile_eq_self_iff hd_rev)
  show ?thesis
    unfolding trim_def [of "trim s"] 1 2 by simp
qed

lemma extracted_is_trimmed:
  assumes "extractFixedCode an = Some f"
  shows "trim f = f"
proof -
  from assms obtain g where "f = trim g"
    by (auto simp: extractFixedCode_def lineScan_def Let_def split: option.splits if_splits)
  then show ?thesis by (simp add: trim_trim)
qed

section \<open>Properties of the pipeline\<close>

lemma runTestCases_empty_iff:
  "fst (runTestCases S ts f w) = [] \<longleftrightarrow> ts = []"
  using runTestCasesFrom_length [of S f 0 ts w] by (auto simp: runTestCases_def simp del: length_0_conv)

lemma some_passed: "0 < length (filter passed rs) \<longleftrightarrow> (\<exists>t \<in> set rs. passed t)"
  by (simp add: filter_empty_conv)

lemma determineSucess_iff:
  "determineSucess r p \<longleftrightarrow>
     \<not> truthy (error r) \<and> (\<exists>f. generated_fix r = Some f \<and> trim f \<noteq> [])
     \<and> (test_results r = [] \<or> (\<exists>t \<in> set (test_results r). passed t))"
proof -
  have "trim [] = []" by (simp add: trim_def)
  then show ?thesis
    by (cases "generated_fix r") (auto simp: determineSucess_def filter_empty_conv)
qed

text \<open>
  C1. In the result that \<open>evaluateProblem\<close> returns, \<open>success\<close> is true if and only if no error
  was recorded on the result, the extracted fix is a string with a character that is not
  white space, and either the problem has no test cases or some test result has
  \<open>passed = True\<close>. A result without an error always carries such a fix, so for a problem with
  test cases \<open>success\<close> means no error and a passed test, and for a problem without test
  cases it means no error.
\<close>

theorem evaluateProblem_success_iff:
  "let r = fst (evaluateProblem S p st)
   in (success r \<longleftrightarrow>
         error r = None
         \<and> (\<exists>f. generated_fix r = Some f \<and> trim f \<noteq> [])
         \<and> (test_cases p = [] \<or> (\<exists>t \<in> set (test_results r). passed t)))
      \<and> (test_cases p \<noteq> [] \<longrightarrow>
           (success r \<longleftrightarrow> error r = None \<and> (\<exists>t \<in> set (test_results r). passed t)))
      \<and> (test_cases p = [] \<longrightarrow> (success r \<longleftrightarrow> error r = None))"
proof -
  obtain ev w where st: "st = (ev, w)" by (cases st)
  define r where "r = fst (pipeline (the_agent ev) S p w)"
  have main: "success r \<longleftrightarrow>
        error r = None
        \<and> (\<exists>f. generated_fix r = Some f \<and> trim f \<noteq> [])
        \<and> (test_cases p = [] \<or> (\<exists>t \<in> set (test_results r). passed t))"
    unfolding r_def
    by (auto simp: pipeline_def Let_def caught_def split_def determineSucess_iff
        runTestCases_empty_iff split: sum.splits)
  have has_fix: "\<exists>f. generated_fix r = Some f \<and> trim f \<noteq> []" if "error r = None"
  proof -
    from that obtain an f where "extractFixedCode an = Some f" "f \<noteq> []" "generated_fix r = Some f"
      unfolding r_def
      by (auto simp: pipeline_def Let_def caught_def split_def
          split: sum.splits option.splits if_splits)
    with extracted_is_trimmed [of an f] show ?thesis by simp
  qed
  from main has_fix have all:
    "(success r \<longleftrightarrow>
         error r = None
         \<and> (\<exists>f. generated_fix r = Some f \<and> trim f \<noteq> [])
         \<and> (test_cases p = [] \<or> (\<exists>t \<in> set (test_results r). passed t)))
      \<and> (test_cases p \<noteq> [] \<longrightarrow>
           (success r \<longleftrightarrow> error r = None \<and> (\<exists>t \<in> set (test_results r). passed t)))
      \<and> (test_cases p = [] \<longrightarrow> (success r \<longleftrightarrow> error r = None))"
    by blast
  have eq: "fst (evaluateProblem S p st) = r"
    by (simp add: st evaluateProblem_def split_def Let_def r_def)
  show ?thesis
    unfolding Let_def eq by (rule all)
qed

lemma sample_evaluation:
  "error (fst (pipeline sampleAgent sampleSys sampleProblem world0)) = None"
  "generated_fix (fst (pipeline sampleAgent sampleSys sampleProblem world0)) = Some ''f = 1''"
  "passed (test_results (fst (pipeline sampleAgent sampleSys sampleProblem world0)) ! 1)"
  "length (test_results (fst (pipeline sampleAgent sampleSys sampleProblem world0))) = 2"
  by code_simp+

theorem evaluateProblem_success_iff_witness:
  "success (fst (evaluateProblem sampleSys sampleProblem
                  (\<lparr>the_agent = sampleAgent, results = []\<rparr>, world0)))
   \<and> test_cases sampleProblem \<noteq> []"
proof -
  let ?st = "(\<lparr>the_agent = sampleAgent, results = []\<rparr>, world0)"
  let ?r = "fst (evaluateProblem sampleSys sampleProblem ?st)"
  have r: "?r = fst (pipeline sampleAgent sampleSys sampleProblem world0)"
    by (simp add: evaluateProblem_def split_def Let_def)
  have "trim ''f = 1'' \<noteq> []" by code_simp
  moreover have "\<exists>t \<in> set (test_results ?r). passed t"
    unfolding r using sample_evaluation(3,4) by (metis nth_mem one_less_numeral_iff semiring_norm(76))
  ultimately have "success ?r"
    using evaluateProblem_success_iff [of sampleSys sampleProblem ?st] sample_evaluation(1,2)
    unfolding r by (simp add: Let_def)
  then show ?thesis by (simp add: sampleProblem_def)
qed

lemma pipeline_problem_id: "problem_id (fst (pipeline a S p w)) = ident p"
  by (simp add: pipeline_def Let_def caught_def split_def split: sum.splits)

lemma validateSyntax_fst: "fst (validateSyntax S c w) = fst (validateSyntax S c w')"
  by (simp add: validateSyntax_def Let_def split: proc_result.splits)

lemma runTestCase_fst: "fst (runTestCase S f i t w) = fst (runTestCase S f i t w')"
  by (simp add: runTestCase_def Let_def split: proc_result.splits)

lemma runTestCasesFrom_fst:
  "fst (runTestCasesFrom S f i ts w) = fst (runTestCasesFrom S f i ts w')"
proof (induction ts arbitrary: i w w')
  case Nil
  show ?case by simp
next
  case (Cons t ts)
  show ?case
    using Cons.IH [of "Suc i" "snd (runTestCase S f i t w)" "snd (runTestCase S f i t w')"]
      runTestCase_fst [of S f i t w w']
    by (simp add: split_def Let_def)
qed

lemma pipeline_fst: "fst (pipeline a S p w) = fst (pipeline a S p w')"
proof -
  have v: "fst (validateSyntax S c w) = fst (validateSyntax S c w')" for c
    by (rule validateSyntax_fst)
  have t: "fst (runTestCasesFrom S c 0 ts (snd (validateSyntax S c w)))
         = fst (runTestCasesFrom S c 0 ts (snd (validateSyntax S c w')))" for c ts
    by (rule runTestCasesFrom_fst)
  show ?thesis
    by (simp add: pipeline_def Let_def split_def runTestCases_def v t split: sum.splits)
qed

lemma evaluateProblem_fst:
  "fst (evaluateProblem S p (ev, w)) = fst (pipeline (the_agent ev) S p w)"
  and evaluateProblem_agent:
  "the_agent (fst (snd (evaluateProblem S p (ev, w)))) = the_agent ev"
  and evaluateProblem_results:
  "results (fst (snd (evaluateProblem S p (ev, w)))) = results ev @ [fst (evaluateProblem S p (ev, w))]"
  by (simp_all add: evaluateProblem_def split_def Let_def)

lemma evaluateBatch_map:
  "fst (evaluateBatch S ps (ev, w)) = map (\<lambda>p. fst (pipeline (the_agent ev) S p w0)) ps"
proof (induction ps arbitrary: ev w)
  case Nil
  show ?case by simp
next
  case (Cons p ps)
  obtain ev1 w1 where s1: "snd (evaluateProblem S p (ev, w)) = (ev1, w1)"
    by (cases "snd (evaluateProblem S p (ev, w))")
  then have "the_agent ev1 = the_agent ev"
    using evaluateProblem_agent [of S p ev w] by simp
  with Cons.IH [of ev1 w1] s1 show ?case
    using pipeline_fst [of "the_agent ev" S p w w0]
    by (simp add: split_def Let_def evaluateProblem_fst)
qed

lemma evaluateBatch_results:
  "results (fst (snd (evaluateBatch S ps (ev, w)))) = results ev @ fst (evaluateBatch S ps (ev, w))"
proof (induction ps arbitrary: ev w)
  case Nil
  show ?case by simp
next
  case (Cons p ps)
  obtain ev1 w1 where s1: "snd (evaluateProblem S p (ev, w)) = (ev1, w1)"
    by (cases "snd (evaluateProblem S p (ev, w))")
  then have "results ev1 = results ev @ [fst (evaluateProblem S p (ev, w))]"
    using evaluateProblem_results [of S p ev w] by simp
  with Cons.IH [of ev1 w1] s1 show ?case
    by (simp add: split_def Let_def)
qed

text \<open>
  C6. \<open>evaluateBatch\<close> returns one result per problem, in input order: the result at index \<open>i\<close>
  carries the id of the problem at index \<open>i\<close> and is the result that \<open>evaluateProblem\<close> gives for
  that problem, whatever happened to the problems before it (a failed evaluation is a result
  with an error, and the loop goes on). The results are appended to the evaluator's own
  list in the same order.
\<close>

theorem evaluateBatch_in_order:
  "let rs = fst (evaluateBatch S ps (ev, w))
   in length rs = length ps
      \<and> (\<forall>i < length ps.
            problem_id (rs ! i) = ident (ps ! i)
            \<and> rs ! i = fst (evaluateProblem S (ps ! i) (ev, w)))
      \<and> results (fst (snd (evaluateBatch S ps (ev, w)))) = results ev @ rs"
  by (simp add: Let_def evaluateBatch_map [where ?w0.0 = w] evaluateBatch_results
      evaluateProblem_fst pipeline_problem_id)

theorem evaluateBatch_in_order_witness:
  "let rs = fst (evaluateBatch sampleSys [brokenProblem, sampleProblem]
                  (\<lparr>the_agent = sampleAgent, results = []\<rparr>, world0))
   in length rs = 2 \<and> problem_id (rs ! 0) = ''p2'' \<and> problem_id (rs ! 1) = ''p1''
      \<and> error (rs ! 0) = Some ''Request timeout after 60000ms''"
proof -
  let ?ps = "[brokenProblem, sampleProblem]"
  let ?ev = "\<lparr>the_agent = sampleAgent, results = []\<rparr>"
  define rs where "rs = fst (evaluateBatch sampleSys ?ps (?ev, world0))"
  note t = evaluateBatch_in_order [of sampleSys ?ps ?ev world0, unfolded Let_def, folded rs_def]
  have e: "error (fst (evaluateProblem sampleSys brokenProblem (?ev, world0)))
             = Some ''Request timeout after 60000ms''"
    by (simp add: evaluateProblem_def pipeline_def sampleAgent_def brokenProblem_def caught_def
        split_def Let_def)
  from t have len: "length rs = 2"
    by simp
  from t have "problem_id (rs ! 0) = ident (?ps ! 0)"
      and "rs ! 0 = fst (evaluateProblem sampleSys (?ps ! 0) (?ev, world0))"
    by (metis length_Cons zero_less_Suc)+
  then have "problem_id (rs ! 0) = ident brokenProblem"
      and r0: "rs ! 0 = fst (evaluateProblem sampleSys brokenProblem (?ev, world0))"
    by simp_all
  then have i0: "problem_id (rs ! 0) = ''p2''"
    by (simp add: brokenProblem_def)
  from t have "problem_id (rs ! 1) = ident (?ps ! 1)"
    by (metis One_nat_def length_Cons lessI list.size(3))
  then have r1: "problem_id (rs ! 1) = ''p1''"
    by (simp add: sampleProblem_def)
  from len i0 r0 r1 e show ?thesis
    unfolding Let_def rs_def [symmetric] by simp
qed

section \<open>Properties of the factory and of the agents\<close>

lemma truthy_orMaybe: "truthy b \<Longrightarrow> truthy (orMaybe a b)"
  by (simp add: orMaybe_def)

lemma orElse_Some: "s \<noteq> [] \<Longrightarrow> orElse (Some s) b = s"
  by (simp add: orElse_def)

lemma required_cases:
  assumes "map_of getRequiredEnvVars k = Some [var]"
  shows "(k = ''openai'' \<and> var = ''OPENAI_API_KEY'') \<or> (k = ''gemini'' \<and> var = ''GEMINI_API_KEY'')
         \<or> (k = ''claude'' \<and> var = ''ANTHROPIC_API_KEY'')"
  using assms by (simp add: getRequiredEnvVars_def split: if_splits)

lemma validateEnvironment_single:
  assumes "map_of getRequiredEnvVars (toLowerCase provider) = Some [var]"
  shows "validateEnvironment env provider =
           (if truthy (env var) then \<lparr>valid = True, missing = [], check_error = None\<rparr>
            else \<lparr>valid = False, missing = [var],
                  check_error = Some (''Missing environment variables: '' @ var)\<rparr>)"
  using assms by (simp add: validateEnvironment_def Let_def)

lemma createValidatedAgent_cases:
  assumes req: "map_of getRequiredEnvVars (toLowerCase provider) = Some [var]"
    and av: "map_of getAvailableModels (toLowerCase provider) = Some allowed"
    and df: "map_of getDefaultModels (toLowerCase provider) = Some dflt"
  shows "(\<not> truthy (env var) \<longrightarrow>
            fst (createValidatedAgent env provider opts)
              = Inl (''Missing environment variables: '' @ var))
       \<and> (truthy (env var) \<longrightarrow>
            (let m = (if truthy (model opts) then the (model opts) else dflt)
             in if m \<in> set allowed
                then fst (createValidatedAgent env provider opts)
                       = createAgent env provider (opts\<lparr>model := Some m\<rparr>)
                     \<and> (\<exists>a. createAgent env provider (opts\<lparr>model := Some m\<rparr>) = Inr a
                              \<and> agent_model a = m)
                else fst (createValidatedAgent env provider opts)
                       = Inl (''Invalid model '' @ m @ '' for provider '' @ provider
                              @ ''. Available models: '' @ join '', '' allowed)))"
proof (intro conjI impI)
  assume "\<not> truthy (env var)"
  then show "fst (createValidatedAgent env provider opts)
              = Inl (''Missing environment variables: '' @ var)"
    by (simp add: createValidatedAgent_def validateEnvironment_single [OF req] shown_def)
next
  assume ok: "truthy (env var)"
  define m where "m = (if truthy (model opts) then the (model opts) else dflt)"
  have dflt_ne: "dflt \<noteq> []"
    using df by (auto simp: getDefaultModels_def split: if_splits)
  have m_ne: "m \<noteq> []"
    using dflt_ne by (cases "model opts") (auto simp: m_def)
  define opts1 where "opts1 = (if \<not> truthy (model opts) then opts\<lparr>model := map_of getDefaultModels (toLowerCase provider)\<rparr> else opts)"
  have o1: "opts1 = opts\<lparr>model := Some m\<rparr>"
    by (cases "model opts") (auto simp: opts1_def m_def df)
  have cva: "createValidatedAgent env provider opts =
      (if \<not> isValidProviderModel provider (Some m)
       then (Inl (''Invalid model '' @ m @ '' for provider '' @ provider
                              @ ''. Available models: '' @ join '', '' allowed), opts1)
       else (createAgent env provider opts1, opts1))"
    using ok o1 unfolding createValidatedAgent_def validateEnvironment_single [OF req] Let_def
      opts1_def [symmetric]
    by (simp add: av shown_def)
  have valid_iff: "isValidProviderModel provider (Some m) \<longleftrightarrow> m \<in> set allowed"
    by (simp add: isValidProviderModel_def av)
  have built: "\<exists>a. createAgent env provider (opts\<lparr>model := Some m\<rparr>) = Inr a \<and> agent_model a = m"
    using required_cases [OF req] ok m_ne
    by (auto simp: createAgent_def Let_def newOpenAIAgent_def newGeminiAgent_def
        newClaudeAgent_def truthy_orMaybe orElse_Some)
  show "let m = (if truthy (model opts) then the (model opts) else dflt)
             in if m \<in> set allowed
                then fst (createValidatedAgent env provider opts)
                       = createAgent env provider (opts\<lparr>model := Some m\<rparr>)
                     \<and> (\<exists>a. createAgent env provider (opts\<lparr>model := Some m\<rparr>) = Inr a
                              \<and> agent_model a = m)
                else fst (createValidatedAgent env provider opts)
                       = Inl (''Invalid model '' @ m @ '' for provider '' @ provider
                              @ ''. Available models: '' @ join '', '' allowed)"
    unfolding Let_def m_def [symmetric]
    using built by (simp add: cva valid_iff o1)
qed


text \<open>
  C5. Let \<open>provider\<close> be a cloud provider tag: a tag whose entry in \<open>getRequiredEnvVars\<close> is one
  credential variable \<open>var\<close>. When \<open>var\<close> is absent from the environment (or empty),
  \<open>createValidatedAgent\<close> throws the error that names it, whatever the options hold, and no
  agent is constructed. When the environment is valid, the model is the one in the options,
  or the provider's default if none was given; a model outside the provider's allow-list is
  rejected with an error that lists the allowed models, and otherwise the result is that
  of \<open>createAgent\<close> on the options with the resolved model, an agent of that model. So an agent
  comes back only after both checks.
\<close>

theorem createValidatedAgent_validates_first:
  assumes req: "map_of getRequiredEnvVars (toLowerCase provider) = Some [var]"
    and av: "map_of getAvailableModels (toLowerCase provider) = Some allowed"
    and df: "map_of getDefaultModels (toLowerCase provider) = Some dflt"
  shows "(\<not> truthy (env var) \<longrightarrow>
            fst (createValidatedAgent env provider opts)
              = Inl (''Missing environment variables: '' @ var))
       \<and> (truthy (env var) \<longrightarrow>
            (let m = (if truthy (model opts) then the (model opts) else dflt)
             in if m \<in> set allowed
                then fst (createValidatedAgent env provider opts)
                       = createAgent env provider (opts\<lparr>model := Some m\<rparr>)
                     \<and> (\<exists>a. createAgent env provider (opts\<lparr>model := Some m\<rparr>) = Inr a
                              \<and> agent_model a = m)
                else fst (createValidatedAgent env provider opts)
                       = Inl (''Invalid model '' @ m @ '' for provider '' @ provider
                              @ ''. Available models: '' @ join '', '' allowed)))
       \<and> (\<forall>a. fst (createValidatedAgent env provider opts) = Inr a \<longrightarrow>
              truthy (env var) \<and> agent_model a \<in> set allowed)"
proof -
  note c = createValidatedAgent_cases [OF req av df, of env opts]
  have "truthy (env var) \<and> agent_model a \<in> set allowed"
    if a: "fst (createValidatedAgent env provider opts) = Inr a" for a
  proof (cases "truthy (env var)")
    case False
    with c a show ?thesis by simp
  next
    case True
    define m where "m = (if truthy (model opts) then the (model opts) else dflt)"
    from c True have
      "if m \<in> set allowed
       then fst (createValidatedAgent env provider opts)
              = createAgent env provider (opts\<lparr>model := Some m\<rparr>)
            \<and> (\<exists>a. createAgent env provider (opts\<lparr>model := Some m\<rparr>) = Inr a \<and> agent_model a = m)
       else fst (createValidatedAgent env provider opts)
              = Inl (''Invalid model '' @ m @ '' for provider '' @ provider
                     @ ''. Available models: '' @ join '', '' allowed)"
      unfolding Let_def m_def by blast
    with a True show ?thesis
      by (cases "m \<in> set allowed") auto
  qed
  with c show ?thesis by blast
qed

lemma lower_OpenAI: "toLowerCase ''OpenAI'' = ''openai''"
  by code_simp

theorem createValidatedAgent_validates_first_witness:
  "fst (createValidatedAgent Map.empty ''OpenAI'' noOptions)
     = Inl ''Missing environment variables: OPENAI_API_KEY''
   \<and> fst (createValidatedAgent [''OPENAI_API_KEY'' \<mapsto> ''sk-1''] ''OpenAI''
            (noOptions\<lparr>model := Some ''gpt-5''\<rparr>))
     = Inl (''Invalid model gpt-5 for provider OpenAI. Available models: ''
            @ ''gpt-4, gpt-4-turbo, gpt-3.5-turbo, gpt-4o, gpt-4o-mini'')
   \<and> (\<exists>a. fst (createValidatedAgent [''OPENAI_API_KEY'' \<mapsto> ''sk-1''] ''OpenAI'' noOptions) = Inr a
          \<and> agent_model a = ''gpt-4'')"
proof -
  let ?allowed = "[''gpt-4'', ''gpt-4-turbo'', ''gpt-3.5-turbo'', ''gpt-4o'', ''gpt-4o-mini'']"
  have req: "map_of getRequiredEnvVars (toLowerCase ''OpenAI'') = Some [''OPENAI_API_KEY'']"
    by (simp add: lower_OpenAI getRequiredEnvVars_def)
  have av: "map_of getAvailableModels (toLowerCase ''OpenAI'') = Some ?allowed"
    by (simp add: lower_OpenAI getAvailableModels_def)
  have df: "map_of getDefaultModels (toLowerCase ''OpenAI'') = Some ''gpt-4''"
    by (simp add: lower_OpenAI getDefaultModels_def)
  note t = createValidatedAgent_validates_first [OF req av df]
  have 1: "fst (createValidatedAgent Map.empty ''OpenAI'' noOptions)
     = Inl ''Missing environment variables: OPENAI_API_KEY''"
    using t [of Map.empty noOptions] by simp
  have 2: "fst (createValidatedAgent [''OPENAI_API_KEY'' \<mapsto> ''sk-1''] ''OpenAI''
            (noOptions\<lparr>model := Some ''gpt-5''\<rparr>))
     = Inl (''Invalid model gpt-5 for provider OpenAI. Available models: ''
            @ ''gpt-4, gpt-4-turbo, gpt-3.5-turbo, gpt-4o, gpt-4o-mini'')"
    using t [of "[''OPENAI_API_KEY'' \<mapsto> ''sk-1'']" "noOptions\<lparr>model := Some ''gpt-5''\<rparr>"]
    by (simp add: Let_def)
  have 3: "\<exists>a. fst (createValidatedAgent [''OPENAI_API_KEY'' \<mapsto> ''sk-1''] ''OpenAI'' noOptions) = Inr a
          \<and> agent_model a = ''gpt-4''"
    using t [of "[''OPENAI_API_KEY'' \<mapsto> ''sk-1'']" noOptions]
    by (simp add: Let_def noOptions_def)
  from 1 2 3 show ?thesis by blast
qed






text \<open>
  C9. For each of the four agent classes, \<open>testConnection\<close> returns a boolean and never
  throws; when the \<open>generate\<close> call of the probe fails, it returns \<open>False\<close> after it has logged
  the message of the failure.
\<close>

theorem testConnection_never_throws:
  "(\<exists>b. fst (testConnection obj a console) = Inr b)
   \<and> (\<forall>msg. generate a ''Hello'' (probeOptions obj) = Inl msg \<longrightarrow>
         testConnection obj a console = (Inr False, console @ [failureLabel obj @ '' '' @ msg]))"
  by (auto simp: testConnection_def probe_def split: sum.splits)

theorem testConnection_never_throws_witness:
  "testConnection (ClaudeAgent ''key'' ''claude-3-opus-20240229'' 60000) sampleAgent []
     = (Inr False, [''Claude connection test failed: Request failed: connect ECONNREFUSED''])"
  using testConnection_never_throws
          [of "ClaudeAgent ''key'' ''claude-3-opus-20240229'' 60000" sampleAgent "[]"]
  by (simp add: sampleAgent_def)

text \<open>
  C3. The claim is that every temporary file is deleted before the step returns, also when
  the child process fails. The code deletes the file on the success path only: when the
  syntax checker is rejected, the file that \<open>validateSyntax\<close> wrote is still there when it
  returns \<open>False\<close>, and when a test process is rejected, so is the file of that test.
\<close>

theorem temp_file_left_behind:
  "validateSyntax \<lparr>py_compile = (\<lambda>c. Rejected ''Command failed''), python3 = (\<lambda>c. Exited [] [])\<rparr>
      ''def f(:'' \<lparr>files = Map.empty, now = 7\<rparr>
     = (False, \<lparr>files = [''/tmp/validate_7.py'' \<mapsto> ''def f(:''], now = 7\<rparr>)
   \<and> files (snd (runTestCases \<lparr>py_compile = (\<lambda>c. Exited [] []), python3 = (\<lambda>c. Rejected ''Command failed'')\<rparr>
               [''assert False''] ''x = 1'' \<lparr>files = Map.empty, now = 7\<rparr>)) ''/tmp/test_7_0.py''
     = Some (testCode ''x = 1'' ''assert False'')"
proof -
  have a: "validateTempFile 7 = ''/tmp/validate_7.py''" by code_simp
  have b: "testTempFile 7 0 = ''/tmp/test_7_0.py''" by code_simp
  show ?thesis
    by (simp add: validateSyntax_def runTestCases_def runTestCase_def Let_def writeFile_def a b)
qed

section \<open>Properties of the report\<close>












section \<open>Properties of the comparison\<close>

























section \<open>Properties of the extraction\<close>












































end
